theory Spec2Isabelle
  imports Main "HOL-Library.Sublist"
begin

section \<open>Python values used by game.py\<close>

text \<open>
  A Python \<open>str\<close> is modelled as a \<open>string\<close> in which every \<open>char\<close> stands for one code
  point below 256 (the Latin-1 range of Unicode); texts with code points beyond that range
  are outside the model. Python's \<open>int\<close> is unbounded and is modelled as \<open>int\<close>.
  An exception is a value of \<open>exn\<close>, and a call that may raise returns \<open>exn + 'a\<close>
  with \<open>Inl\<close> for the exception. Every exception below is a subclass of \<open>Exception\<close>,
  so \<open>except Exception\<close> catches each of them.
\<close>

datatype exn = ValueError | IndexError | KeyError | GeneratorError | DatabaseError

text \<open>\<open>sub in s\<close> on strings: \<open>sub\<close> occurs in \<open>s\<close> as a contiguous piece.\<close>

fun str_contains :: "string \<Rightarrow> string \<Rightarrow> bool" where
  "str_contains sub [] = (sub = [])"
| "str_contains sub (x # xs) = (prefix sub (x # xs) \<or> str_contains sub xs)"

text \<open>
  \<open>s.split(sep)\<close>: the pieces of \<open>s\<close> between the occurrences of \<open>sep\<close>, found from the
  left and not overlapping. The result always has at least one piece. Python raises
  ValueError for an empty separator; every separator in game.py is a non-empty literal,
  and for an empty one this function returns the text as its only piece. The \<open>[]\<close> branch
  of the \<open>case\<close> is never taken (see \<open>py_split_not_Nil\<close>).
\<close>

function py_split :: "string \<Rightarrow> string \<Rightarrow> string list" where
  "py_split sep [] = [[]]"
| "py_split sep (x # xs) =
     (if sep \<noteq> [] \<and> prefix sep (x # xs)
      then [] # py_split sep (drop (length sep) (x # xs))
      else (case py_split sep xs of
              [] \<Rightarrow> [[x]]
            | p # ps \<Rightarrow> (x # p) # ps))"
  by pat_completeness auto
termination
  by (relation "measure (\<lambda>(sep, s). length s)") (auto simp: neq_Nil_conv)

text \<open>\<open>xs[i]\<close> for a non-negative literal index \<open>i\<close>: IndexError when out of range.\<close>

definition getitem :: "'a list \<Rightarrow> nat \<Rightarrow> exn + 'a" where
  "getitem xs i = (if i < length xs then Inr (xs ! i) else Inl IndexError)"

text \<open>\<open>sep.join(xs)\<close>.\<close>

fun str_join :: "string \<Rightarrow> string list \<Rightarrow> string" where
  "str_join sep [] = []"
| "str_join sep [x] = x"
| "str_join sep (x # y # ys) = x @ sep @ str_join sep (y # ys)"

text \<open>
  The decimal value of an ASCII digit, and \<open>c.isdigit()\<close>. Below code point 256 the
  characters with \<open>isdigit()\<close> true are the ASCII digits and the superscripts
  U+00B2, U+00B3 and U+00B9; the superscripts are digits for \<open>isdigit\<close> but not
  decimal characters, so \<open>int\<close> refuses them.
\<close>

definition decimal_value :: "char \<Rightarrow> nat option" where
  "decimal_value c =
     (let n = (of_char c :: nat) in if 48 \<le> n \<and> n \<le> 57 then Some (n - 48) else None)"

definition isdigit :: "char \<Rightarrow> bool" where
  "isdigit c = (decimal_value c \<noteq> None \<or> c = CHR 0xB2 \<or> c = CHR 0xB3 \<or> c = CHR 0xB9)"

text \<open>
  \<open>c.isspace()\<close> below code point 256: U+0009 to U+000D, U+001C to U+001F, the space,
  U+0085 and U+00A0. \<open>s.strip()\<close> removes such characters from both ends.
\<close>

definition isspace :: "char \<Rightarrow> bool" where
  "isspace c =
     (let n = (of_char c :: nat)
      in (9 \<le> n \<and> n \<le> 13) \<or> (28 \<le> n \<and> n \<le> 32) \<or> n = 133 \<or> n = 160)"

definition strip :: "string \<Rightarrow> string" where
  "strip s = rev (dropWhile isspace (rev (dropWhile isspace s)))"

text \<open>
  \<open>int(s)\<close> for a text \<open>s\<close> made of \<open>isdigit\<close> characters and signs only, which is all
  that \<open>extract_number\<close> passes to it (so the whitespace stripping and the underscore
  grouping of \<open>int\<close> never apply): an optional sign, then at least one decimal digit, read
  from the left. \<open>lim\<close> is the interpreter's limit on the number of digits of a decimal
  text (\<open>sys.get_int_max_str_digits()\<close>, 4300 by default, 0 for no limit); a longer text
  raises ValueError, as a malformed one does.
\<close>

fun parse_digits :: "nat \<Rightarrow> string \<Rightarrow> nat option" where
  "parse_digits acc [] = Some acc"
| "parse_digits acc (c # cs) =
     (case decimal_value c of
        None \<Rightarrow> None
      | Some d \<Rightarrow> parse_digits (10 * acc + d) cs)"

definition py_int :: "nat \<Rightarrow> string \<Rightarrow> exn + int" where
  "py_int lim s =
     (let (neg, ds) =
        (case s of
           [] \<Rightarrow> (False, s)
         | c # cs \<Rightarrow>
             if c = CHR ''-'' then (True, cs)
             else if c = CHR ''+'' then (False, cs)
             else (False, s))
      in if ds = [] then Inl ValueError
         else if 0 < lim \<and> lim < length ds then Inl ValueError
         else (case parse_digits 0 ds of
                 None \<Rightarrow> Inl ValueError
               | Some n \<Rightarrow> Inr (if neg then - int n else int n)))"

section \<open>The game object\<close>

text \<open>
  The fields of \<open>ModernWesterosGame\<close> that make up the state of a game. The language-model
  client and the prompt templates are external and enter as the environment below.
\<close>

record game =
  player_history :: "string list"
  happiness :: int
  wealth :: int
  turn_count :: int
  game_id :: string

subsection \<open>parse_stats_impact and update_stats\<close>

text \<open>\<open>"".join(c for c in impact_str if c.isdigit() or c in "+-")\<close>.\<close>

definition keep_digits_signs :: "string \<Rightarrow> string" where
  "keep_digits_signs impact_str =
     filter (\<lambda>c. isdigit c \<or> c = CHR ''+'' \<or> c = CHR ''-'') impact_str"

definition extract_number :: "nat \<Rightarrow> string \<Rightarrow> exn + int" where
  "extract_number lim impact_str = py_int lim (keep_digits_signs impact_str)"

text \<open>The body of the \<open>try\<close> of \<open>parse_stats_impact\<close>.\<close>

definition parse_stats_impact_try :: "nat \<Rightarrow> string \<Rightarrow> exn + (int \<times> int)" where
  "parse_stats_impact_try lim choice =
     (if \<not> str_contains ''('' choice \<or> \<not> str_contains '')'' choice then Inr (0, 0)
      else
        (case getitem (py_split ''('' choice) 1 of
           Inl e \<Rightarrow> Inl e
         | Inr after_open \<Rightarrow>
        (case getitem (py_split '')'' after_open) 0 of
           Inl e \<Rightarrow> Inl e
         | Inr inside \<Rightarrow>
             (let impacts = py_split '','' inside in
              if length impacts < 2 then Inr (0, 0)
              else
                (case extract_number lim (impacts ! 0) of
                   Inl e \<Rightarrow> Inl e
                 | Inr happiness_impact \<Rightarrow>
                (case extract_number lim (impacts ! 1) of
                   Inl e \<Rightarrow> Inl e
                 | Inr wealth_impact \<Rightarrow> Inr (happiness_impact, wealth_impact)))))))"

text \<open>\<open>parse_stats_impact\<close>: the body, with \<open>except Exception: return 0, 0\<close> around it.\<close>

definition parse_stats_impact :: "nat \<Rightarrow> string \<Rightarrow> exn + (int \<times> int)" where
  "parse_stats_impact lim choice =
     (case parse_stats_impact_try lim choice of
        Inl e \<Rightarrow> Inr (0, 0)
      | Inr r \<Rightarrow> Inr r)"

text \<open>
  \<open>update_stats\<close> mutates the game; the model returns the result (or the exception) with
  the game as the call leaves it.
\<close>

definition update_stats :: "nat \<Rightarrow> game \<Rightarrow> string \<Rightarrow> (exn + (int \<times> int)) \<times> game" where
  "update_stats lim g choice_text =
     (case parse_stats_impact lim choice_text of
        Inl e \<Rightarrow> (Inl e, g)
      | Inr (happiness_impact, wealth_impact) \<Rightarrow>
          (Inr (happiness_impact, wealth_impact),
           g\<lparr>happiness := max 0 (min 100 (happiness g + happiness_impact)),
             wealth := max 0 (wealth g + wealth_impact)\<rparr>))"

subsection \<open>check_game_over\<close>

abbreviation happiness_zero_message :: string where
  "happiness_zero_message \<equiv>
     ''Game Over! Your happiness has reached zero. The night is dark and full of terrors.''"

abbreviation broke_message :: string where
  "broke_message \<equiv> ''Game Over! You've gone broke. Even the Iron Bank won't help you now.''"

abbreviation victory_message :: string where
  "victory_message \<equiv>
     ''Victory! You've achieved both wealth and happiness. The North remembers your success!''"

abbreviation turn_limit_message :: string where
  "turn_limit_message \<equiv>
     ''Game Over! You've completed your journey, but haven't reached greatness.''"

definition check_game_over :: "game \<Rightarrow> bool \<times> string" where
  "check_game_over g =
     (if happiness g \<le> 0 then (True, happiness_zero_message)
      else if wealth g \<le> 0 then (True, broke_message)
      else if happiness g \<ge> 80 \<and> wealth g \<ge> 150000 then (True, victory_message)
      else if turn_count g \<ge> 10 then (True, turn_limit_message)
      else (False, []))"

subsection \<open>get_serializable_state and load_state\<close>

text \<open>
  The state dictionary: one entry for each of the five keys, \<open>None\<close> when the key is
  missing from the dictionary. An entry holds a value of the kind that
  \<open>get_serializable_state\<close> stores under its key (a list of texts, an integer, a text);
  dictionaries with a value of another kind under one of these keys are outside the
  model, and keys other than the five are never read.
  \<open>load_state\<close> assigns the five fields in the source's order; a missing key raises
  KeyError at its line, and the fields assigned before that line keep their new values.
\<close>

record state_dict =
  player_history_entry :: "string list option"
  happiness_entry :: "int option"
  wealth_entry :: "int option"
  turn_count_entry :: "int option"
  game_id_entry :: "string option"

definition get_serializable_state :: "game \<Rightarrow> state_dict" where
  "get_serializable_state g =
     \<lparr>player_history_entry = Some (player_history g),
      happiness_entry = Some (happiness g),
      wealth_entry = Some (wealth g),
      turn_count_entry = Some (turn_count g),
      game_id_entry = Some (game_id g)\<rparr>"

definition load_state :: "game \<Rightarrow> state_dict \<Rightarrow> (exn + unit) \<times> game" where
  "load_state g state =
     (case player_history_entry state of
        None \<Rightarrow> (Inl KeyError, g)
      | Some h \<Rightarrow>
          (let g1 = g\<lparr>player_history := h\<rparr> in
           case happiness_entry state of
             None \<Rightarrow> (Inl KeyError, g1)
           | Some n \<Rightarrow>
               (let g2 = g1\<lparr>happiness := n\<rparr> in
                case wealth_entry state of
                  None \<Rightarrow> (Inl KeyError, g2)
                | Some w \<Rightarrow>
                    (let g3 = g2\<lparr>wealth := w\<rparr> in
                     case turn_count_entry state of
                       None \<Rightarrow> (Inl KeyError, g3)
                     | Some t \<Rightarrow>
                         (let g4 = g3\<lparr>turn_count := t\<rparr> in
                          case game_id_entry state of
                            None \<Rightarrow> (Inl KeyError, g4)
                          | Some i \<Rightarrow> (Inr (), g4\<lparr>game_id := i\<rparr>))))))"

subsection \<open>The environment: language model and choices table\<close>

text \<open>
  The two chains are calls to the language model; each returns a text or raises. The
  story chain receives (history, current situation, happiness, wealth, previous choices),
  the consequence chain (history, choice, happiness, wealth); the previous choices are
  passed as the list that \<open>json.dumps\<close> encodes. The table \<open>choices\<close> of the database is
  a list of rows (choice_text, game_id) in insertion order; \<open>insert_fault\<close> and
  \<open>select_fault\<close> say whether the database raises on a write or a read.
  \<open>int_max_str_digits\<close> is the interpreter's digit limit of \<open>int\<close>.
\<close>

record env =
  int_max_str_digits :: nat
  story_chain :: "string \<times> string \<times> int \<times> int \<times> string list \<Rightarrow> exn + string"
  consequence_chain :: "string \<times> string \<times> int \<times> int \<Rightarrow> exn + string"
  insert_fault :: "exn option"
  select_fault :: "exn option"

type_synonym choices_table = "(string \<times> string) list"

definition store_choice ::
  "env \<Rightarrow> choices_table \<Rightarrow> game \<Rightarrow> string \<Rightarrow> (exn + unit) \<times> choices_table" where
  "store_choice ev db g choice_text =
     (case insert_fault ev of
        Some e \<Rightarrow> (Inl e, db)
      | None \<Rightarrow> (Inr (), db @ [(choice_text, game_id g)]))"

definition get_previous_choices :: "env \<Rightarrow> choices_table \<Rightarrow> game \<Rightarrow> exn + string list" where
  "get_previous_choices ev db g =
     (case select_fault ev of
        Some e \<Rightarrow> Inl e
      | None \<Rightarrow> Inr (map fst (filter (\<lambda>row. snd row = game_id g) db)))"

definition format_history :: "game \<Rightarrow> string" where
  "format_history g =
     (if player_history g = [] then ''No previous choices.''
      else str_join '' Then '' (player_history g))"

subsection \<open>get_story_segment and make_choice\<close>

definition get_story_segment_try :: "env \<Rightarrow> choices_table \<Rightarrow> game \<Rightarrow> string \<Rightarrow> exn + string" where
  "get_story_segment_try ev db g current_situation =
     (case get_previous_choices ev db g of
        Inl e \<Rightarrow> Inl e
      | Inr previous_choices \<Rightarrow>
          story_chain ev
            (format_history g, current_situation, happiness g, wealth g, previous_choices))"

abbreviation story_error_text :: string where
  "story_error_text \<equiv> ''Error generating story segment.''"

definition get_story_segment :: "env \<Rightarrow> choices_table \<Rightarrow> game \<Rightarrow> string \<Rightarrow> exn + string" where
  "get_story_segment ev db g current_situation =
     (case get_story_segment_try ev db g current_situation of
        Inl e \<Rightarrow> Inr story_error_text
      | Inr response \<Rightarrow> Inr response)"

text \<open>
  The body of the \<open>try\<close> of \<open>make_choice\<close>. It returns the pair (or the exception raised)
  together with the game and the table as they are at that moment: what was assigned
  before an exception stays assigned.
\<close>

definition make_choice_try ::
  "env \<Rightarrow> game \<times> choices_table \<Rightarrow> string
     \<Rightarrow> (exn + (string \<times> string)) \<times> (game \<times> choices_table)" where
  "make_choice_try ev st choice_text =
     (let g1 = (fst st)\<lparr>turn_count := turn_count (fst st) + 1\<rparr>; db = snd st in
      if choice_text = [] \<or> length (strip choice_text) = 0 then (Inl ValueError, (g1, db))
      else
        (case store_choice ev db g1 choice_text of
           (Inl e, db1) \<Rightarrow> (Inl e, (g1, db1))
         | (Inr u, db1) \<Rightarrow>
        (case update_stats (int_max_str_digits ev) g1 choice_text of
           (Inl e, g2) \<Rightarrow> (Inl e, (g2, db1))
         | (Inr impacts, g2) \<Rightarrow>
        (case consequence_chain ev
                (format_history g2, choice_text, happiness g2, wealth g2) of
           Inl e \<Rightarrow> (Inl e, (g2, db1))
         | Inr consequence \<Rightarrow>
             (let g3 = g2\<lparr>player_history := player_history g2 @ [choice_text]\<rparr> in
              case get_story_segment ev db1 g3 consequence of
                Inl e \<Rightarrow> (Inl e, (g3, db1))
              | Inr segment \<Rightarrow> (Inr (consequence, segment), (g3, db1)))))))"

abbreviation unclear_outcome_text :: string where
  "unclear_outcome_text \<equiv> ''The outcome of your choice was unclear...''"

abbreviation reassess_situation :: string where
  "reassess_situation \<equiv> ''Jon needs to reassess his options...''"

text \<open>\<open>make_choice\<close>: the body, with the handler of \<open>except Exception\<close> around it.\<close>

definition make_choice ::
  "env \<Rightarrow> game \<times> choices_table \<Rightarrow> string
     \<Rightarrow> (exn + (string \<times> string)) \<times> (game \<times> choices_table)" where
  "make_choice ev st choice_text =
     (case make_choice_try ev st choice_text of
        (Inr r, st') \<Rightarrow> (Inr r, st')
      | (Inl e, st') \<Rightarrow>
          (case get_story_segment ev (snd st') (fst st') reassess_situation of
             Inl e' \<Rightarrow> (Inl e', st')
           | Inr segment \<Rightarrow> (Inr (unclear_outcome_text, segment), st')))"

subsection \<open>Reading a segment in game_action\<close>

text \<open>
  \<open>game_action\<close> reads the story and the choices out of a segment with two expressions,
  the story first:
  \<^verbatim>\<open>segment.split("STORY:")[1].split("CHOICES:")[0].strip()\<close> and
  \<^verbatim>\<open>[choice.strip() for choice in segment.split("CHOICES:\n")[1].split("\n") if choice.strip()][:3]\<close>.
  An exception of either leaves the \<open>try\<close> of \<open>game_action\<close>, whose handler answers with
  an error response.
\<close>

definition segment_story :: "string \<Rightarrow> exn + string" where
  "segment_story segment =
     (case getitem (py_split ''STORY:'' segment) 1 of
        Inl e \<Rightarrow> Inl e
      | Inr after_story \<Rightarrow>
          (case getitem (py_split ''CHOICES:'' after_story) 0 of
             Inl e \<Rightarrow> Inl e
           | Inr story \<Rightarrow> Inr (strip story)))"

definition segment_choices :: "string \<Rightarrow> exn + string list" where
  "segment_choices segment =
     (case getitem (py_split ''CHOICES:\<newline>'' segment) 1 of
        Inl e \<Rightarrow> Inl e
      | Inr block \<Rightarrow>
          Inr (take 3 (map strip
                 (filter (\<lambda>choice. strip choice \<noteq> []) (py_split ''\<newline>'' block)))))"

definition parse_segment :: "string \<Rightarrow> exn + (string \<times> string list)" where
  "parse_segment segment =
     (case segment_story segment of
        Inl e \<Rightarrow> Inl e
      | Inr story \<Rightarrow>
          (case segment_choices segment of
             Inl e \<Rightarrow> Inl e
           | Inr choices \<Rightarrow> Inr (story, choices)))"

text \<open>
  What \<open>game_action\<close> answers about a segment: the story and the choices with status
  success, or, when reading the segment raises, the answer of its handler
  \<^verbatim>\<open>except Exception as e: return jsonify({"status": "error", "message": str(e)}), 500\<close>,
  which carries the exception's message and no story or choices. The other fields of the
  success answer (turn, happiness, wealth, consequence, game over) are left out.
\<close>

datatype response = Success string "string list" | ServerError exn

definition segment_response :: "string \<Rightarrow> response" where
  "segment_response segment =
     (case parse_segment segment of
        Inl e \<Rightarrow> ServerError e
      | Inr (story, choices) \<Rightarrow> Success story choices)"

section \<open>Notions used to state the properties\<close>

text \<open>
  The impact annotation as the specification describes it: the text between the first
  opening parenthesis and the first closing parenthesis that follows it; there is none
  when the text has no opening parenthesis, or no closing one after it.
\<close>

definition spec_delimited :: "string \<Rightarrow> string option" where
  "spec_delimited choice =
     (case dropWhile (\<lambda>c. c \<noteq> CHR ''('') choice of
        [] \<Rightarrow> None
      | c # rest \<Rightarrow>
          if CHR '')'' \<in> set rest then Some (takeWhile (\<lambda>c. c \<noteq> CHR '')'') rest) else None)"

text \<open>
  What \<open>parse_stats_impact\<close> extracts, described on the text itself: what follows the
  first opening parenthesis, up to the next parenthesis of either kind or the end.
\<close>

definition extracted :: "string \<Rightarrow> string" where
  "extracted choice =
     takeWhile (\<lambda>c. c \<noteq> CHR ''('' \<and> c \<noteq> CHR '')'')
       (drop 1 (dropWhile (\<lambda>c. c \<noteq> CHR ''('') choice))"

text \<open>
  A signed integer literal and its value in positional notation: an optional sign, then
  one or more ASCII digits (at most \<open>lim\<close> of them when the interpreter's digit limit
  \<open>lim\<close> is in force, that is, not 0).
\<close>

fun positional_value :: "string \<Rightarrow> nat" where
  "positional_value [] = 0"
| "positional_value (c # cs) =
     (of_char c - 48) * 10 ^ length cs + positional_value cs"

definition ascii_digit :: "char \<Rightarrow> bool" where
  "ascii_digit c = (c \<in> set ''0123456789'')"

definition unsigned_literal :: "nat \<Rightarrow> string \<Rightarrow> bool" where
  "unsigned_literal lim ds = (ds \<noteq> [] \<and> list_all ascii_digit ds \<and> (lim = 0 \<or> length ds \<le> lim))"

fun signed_literal :: "nat \<Rightarrow> string \<Rightarrow> int option" where
  "signed_literal lim [] = None"
| "signed_literal lim (c # cs) =
     (if c = CHR ''+'' then
        (if unsigned_literal lim cs then Some (int (positional_value cs)) else None)
      else if c = CHR ''-'' then
        (if unsigned_literal lim cs then Some (- int (positional_value cs)) else None)
      else
        (if unsigned_literal lim (c # cs) then Some (int (positional_value (c # cs))) else None))"

text \<open>A text is blank when it is empty or consists of whitespace only.\<close>

definition blank :: "string \<Rightarrow> bool" where
  "blank s = list_all isspace s"

subsection \<open>Example values\<close>

text \<open>The state of a new game, with some identifier.\<close>

definition new_game :: game where
  "new_game =
     \<lparr>player_history = [], happiness = 30, wealth = 100000, turn_count = 0, game_id = ''a1''\<rparr>"

text \<open>
  Environments for the examples: the language model answers every call with a
  well-formed text; in \<open>env_consequence_down\<close> the consequence chain raises, in
  \<open>env_story_down\<close> the story chain does.
\<close>

definition env_up :: env where
  "env_up =
     \<lparr>int_max_str_digits = 4300,
      story_chain = (\<lambda>x. Inr ''STORY: s\<newline>CHOICES:\<newline>1. a\<newline>2. b\<newline>3. c''),
      consequence_chain = (\<lambda>x. Inr ''done''),
      insert_fault = None,
      select_fault = None\<rparr>"

definition env_consequence_down :: env where
  "env_consequence_down = env_up\<lparr>consequence_chain := (\<lambda>x. Inl GeneratorError)\<rparr>"

definition env_story_down :: env where
  "env_story_down = env_up\<lparr>story_chain := (\<lambda>x. Inl GeneratorError)\<rparr>"

section \<open>Stat updates stay in range\<close>

text \<open>
  C1. Whatever the game and whatever the choice text, with \<open>(dh, dw)\<close> the deltas that
  \<open>update_stats\<close> reads from the text (integers of any sign and size): after
  \<open>update_stats\<close> the stored happiness is \<open>max 0 (min 100 (happiness + dh))\<close>, which lies
  between 0 and 100, and the stored wealth is \<open>max 0 (wealth + dw)\<close>, which is at least 0
  and has no upper bound applied. No condition on the game before the call is needed, so
  this holds in particular for every game with happiness in 0..100 and wealth at least 0.
\<close>

theorem update_stats_clamps:
  assumes "parse_stats_impact lim choice_text = Inr (dh, dw)"
  shows "fst (update_stats lim g choice_text) = Inr (dh, dw)
       \<and> happiness (snd (update_stats lim g choice_text)) = max 0 (min 100 (happiness g + dh))
       \<and> 0 \<le> happiness (snd (update_stats lim g choice_text))
       \<and> happiness (snd (update_stats lim g choice_text)) \<le> 100
       \<and> wealth (snd (update_stats lim g choice_text)) = max 0 (wealth g + dw)
       \<and> 0 \<le> wealth (snd (update_stats lim g choice_text))"
  using assms by (simp add: update_stats_def)

text \<open>The extreme case of the specification: a delta of -1000 on happiness 5 gives 0.\<close>

theorem update_stats_clamps_witness:
  "parse_stats_impact 4300 ''(-1000,+7)'' = Inr (-1000, 7)
   \<and> happiness (snd (update_stats 4300 (new_game\<lparr>happiness := 5\<rparr>) ''(-1000,+7)'')) = 0
   \<and> wealth (snd (update_stats 4300 (new_game\<lparr>happiness := 5\<rparr>) ''(-1000,+7)'')) = 100007"
proof -
  have p: "parse_stats_impact 4300 ''(-1000,+7)'' = Inr (-1000, 7)"
    by (simp add: parse_stats_impact_def parse_stats_impact_try_def getitem_def
        extract_number_def keep_digits_signs_def isdigit_def decimal_value_def py_int_def)
  show ?thesis
    using p update_stats_clamps [OF p, of "new_game\<lparr>happiness := 5\<rparr>"]
    by (simp add: new_game_def)
qed

section \<open>Order of the terminal conditions\<close>

text \<open>
  C2. \<open>check_game_over\<close> tests, in this order and with the first match deciding:
  happiness at most 0 (defeat, happiness depleted), wealth at most 0 (defeat, broke),
  happiness at least 80 and wealth at least 150000 (victory), turn count at least 10 (turn
  limit); otherwise the game goes on. In particular a game with happiness 0 and wealth
  200000 ends in the happiness defeat and not in victory.
\<close>

theorem check_game_over_order:
  "(happiness g \<le> 0 \<longrightarrow> check_game_over g = (True, happiness_zero_message))
   \<and> (0 < happiness g \<and> wealth g \<le> 0 \<longrightarrow> check_game_over g = (True, broke_message))
   \<and> (0 < happiness g \<and> 0 < wealth g \<and> 80 \<le> happiness g \<and> 150000 \<le> wealth g
        \<longrightarrow> check_game_over g = (True, victory_message))
   \<and> (0 < happiness g \<and> 0 < wealth g \<and> (happiness g < 80 \<or> wealth g < 150000)
        \<and> 10 \<le> turn_count g \<longrightarrow> check_game_over g = (True, turn_limit_message))
   \<and> (0 < happiness g \<and> 0 < wealth g \<and> (happiness g < 80 \<or> wealth g < 150000)
        \<and> turn_count g < 10 \<longrightarrow> check_game_over g = (False, []))
   \<and> (happiness g = 0 \<and> wealth g = 200000
        \<longrightarrow> check_game_over g = (True, happiness_zero_message)
          \<and> check_game_over g \<noteq> (True, victory_message))"
  by (auto simp: check_game_over_def)

theorem check_game_over_order_witness:
  "check_game_over (new_game\<lparr>happiness := 0, wealth := 200000\<rparr>)
     = (True, happiness_zero_message)
   \<and> check_game_over (new_game\<lparr>happiness := 0, wealth := 200000\<rparr>)
     \<noteq> (True, victory_message)"
  using check_game_over_order [of "new_game\<lparr>happiness := 0, wealth := 200000\<rparr>"]
  by simp

section \<open>Facts about the helpers of a turn\<close>

lemma parse_stats_impact_returns: "\<exists>dh dw. parse_stats_impact lim c = Inr (dh, dw)"
  by (cases "parse_stats_impact_try lim c") (auto simp: parse_stats_impact_def)

lemma update_stats_returns:
  "\<exists>dh dw. update_stats lim g c =
     (Inr (dh, dw), g\<lparr>happiness := max 0 (min 100 (happiness g + dh)),
                      wealth := max 0 (wealth g + dw)\<rparr>)"
proof -
  obtain dh dw where "parse_stats_impact lim c = Inr (dh, dw)"
    using parse_stats_impact_returns by blast
  then show ?thesis by (auto simp: update_stats_def)
qed

lemma get_story_segment_returns:
  "get_story_segment ev db g x =
     Inr (case get_story_segment_try ev db g x of Inl e \<Rightarrow> story_error_text | Inr s \<Rightarrow> s)"
  by (simp add: get_story_segment_def split: sum.splits)

lemma strip_empty_iff: "strip s = [] \<longleftrightarrow> list_all isspace s"
proof -
  have "strip s = [] \<longleftrightarrow> dropWhile isspace (rev (dropWhile isspace s)) = []"
    by (simp add: strip_def)
  also have "\<dots> \<longleftrightarrow> (\<forall>x \<in> set (dropWhile isspace s). isspace x)"
    by (simp add: dropWhile_eq_Nil_conv)
  also have "\<dots> \<longleftrightarrow> dropWhile isspace s = []"
    by (metis dropWhile_eq_Nil_conv hd_dropWhile hd_in_set all_not_in_conv set_empty)
  also have "\<dots> \<longleftrightarrow> list_all isspace s"
    by (simp add: dropWhile_eq_Nil_conv list_all_iff)
  finally show ?thesis .
qed

lemma blank_iff: "blank s \<longleftrightarrow> (s = [] \<or> length (strip s) = 0)"
  by (auto simp: blank_def strip_empty_iff)

lemma make_choice_try_blank:
  "blank c \<Longrightarrow> make_choice_try ev (g, db) c = (Inl ValueError, (g\<lparr>turn_count := turn_count g + 1\<rparr>, db))"
  using blank_iff [of c] by (simp add: make_choice_try_def)

lemma make_choice_try_turn_count:
  "turn_count (fst (snd (make_choice_try ev (g, db) c))) = turn_count g + 1"
proof -
  obtain dh dw where u: "update_stats (int_max_str_digits ev) (g\<lparr>turn_count := turn_count g + 1\<rparr>) c =
     (Inr (dh, dw), g\<lparr>turn_count := turn_count g + 1\<rparr>\<lparr>happiness := max 0 (min 100 (happiness (g\<lparr>turn_count := turn_count g + 1\<rparr>) + dh)),
                      wealth := max 0 (wealth (g\<lparr>turn_count := turn_count g + 1\<rparr>) + dw)\<rparr>)"
    using update_stats_returns by blast
  show ?thesis
    by (simp add: make_choice_try_def store_choice_def u get_story_segment_returns Let_def
        split: option.splits sum.splits)
qed

lemma make_choice_state:
  "snd (make_choice ev st c) = snd (make_choice_try ev st c)"
  by (simp add: make_choice_def get_story_segment_returns split: prod.splits sum.splits)

lemma env_up_simps:
  "int_max_str_digits env_up = 4300" "insert_fault env_up = None" "select_fault env_up = None"
  "consequence_chain env_up x = Inr ''done''"
  "story_chain env_up y = Inr ''STORY: s\<newline>CHOICES:\<newline>1. a\<newline>2. b\<newline>3. c''"
  by (simp_all add: env_up_def)

lemma env_down_simps:
  "int_max_str_digits env_consequence_down = 4300" "insert_fault env_consequence_down = None"
  "select_fault env_consequence_down = None"
  "consequence_chain env_consequence_down x = Inl GeneratorError"
  "story_chain env_consequence_down y = Inr ''STORY: s\<newline>CHOICES:\<newline>1. a\<newline>2. b\<newline>3. c''"
  "int_max_str_digits env_story_down = 4300" "insert_fault env_story_down = None"
  "select_fault env_story_down = None"
  "consequence_chain env_story_down x = Inr ''done''"
  "story_chain env_story_down y = Inl GeneratorError"
  by (simp_all add: env_up_def env_consequence_down_def env_story_down_def)

lemma parse_example: "parse_stats_impact 4300 ''x (+1,+1)'' = Inr (1, 1)"
  by (simp add: parse_stats_impact_def parse_stats_impact_try_def getitem_def
      extract_number_def keep_digits_signs_def isdigit_def decimal_value_def py_int_def)

lemma example_not_blank: "\<not> blank ''x (+1,+1)''"
  by (simp add: blank_def isspace_def)

lemma env_consequence_down_segment:
  "get_story_segment env_consequence_down db g s =
     Inr ''STORY: s\<newline>CHOICES:\<newline>1. a\<newline>2. b\<newline>3. c''"
  by (simp add: get_story_segment_def get_story_segment_try_def get_previous_choices_def
      env_down_simps)

section \<open>A turn is spent at once\<close>

text \<open>
  C6. For every environment, game, table and submitted choice text, \<open>make_choice\<close> leaves
  \<open>turn_count\<close> exactly one higher than it was. The increment is the first statement of
  the turn and nothing undoes it: it stays when the text is blank, when the database or the
  consequence chain raises, and when the story chain raises.
\<close>

theorem make_choice_spends_turn:
  "turn_count (fst (snd (make_choice ev (g, db) choice_text))) = turn_count g + 1"
  by (simp add: make_choice_state make_choice_try_turn_count)

theorem make_choice_spends_turn_witness:
  "turn_count (fst (snd (make_choice env_story_down (new_game, []) '' ''))) = 1"
  using make_choice_spends_turn [of env_story_down new_game "[]" "'' ''"]
  by (simp add: new_game_def)

section \<open>Saving and loading the state\<close>

text \<open>
  C9. For every game \<open>g\<close>, loading the dictionary that \<open>get_serializable_state\<close> builds
  from \<open>g\<close> into any game object raises nothing and leaves that object equal to \<open>g\<close> in
  all five fields: \<open>player_history\<close>, \<open>happiness\<close>, \<open>wealth\<close>, \<open>turn_count\<close> and
  \<open>game_id\<close>.
\<close>

theorem load_state_roundtrip: "load_state g0 (get_serializable_state g) = (Inr (), g)"
  by (simp add: load_state_def get_serializable_state_def)

section \<open>A failed consequence leaves the turn half applied\<close>

lemma make_choice_try_consequence_fails:
  assumes nb: "\<not> blank choice_text"
    and ins: "insert_fault ev = None"
    and p: "parse_stats_impact (int_max_str_digits ev) choice_text = Inr (dh, dw)"
    and g': "g' = g\<lparr>turn_count := turn_count g + 1,
                     happiness := max 0 (min 100 (happiness g + dh)),
                     wealth := max 0 (wealth g + dw)\<rparr>"
    and c: "consequence_chain ev (format_history g', choice_text, happiness g', wealth g') = Inl e"
  shows "make_choice_try ev (g, db) choice_text =
           (Inl e, (g', db @ [(choice_text, game_id g)]))"
proof -
  have u: "update_stats (int_max_str_digits ev) (g\<lparr>turn_count := turn_count g + 1\<rparr>) choice_text
             = (Inr (dh, dw), g')"
    by (simp add: update_stats_def p g')
  from nb have "\<not> (choice_text = [] \<or> length (strip choice_text) = 0)"
    by (simp add: blank_iff)
  then show ?thesis
    using c by (simp add: make_choice_try_def store_choice_def ins u)
qed

text \<open>
  C10. A turn is not atomic. For a choice text that is not blank, a database write that
  succeeds and deltas \<open>(dh, dw)\<close> read from the text: if the consequence chain raises on
  the input built after the stat update, then \<open>make_choice\<close> returns the fallback
  consequence together with the segment for the recovery situation, as an ordinary pair
  with no sign of the failure; the game keeps the incremented \<open>turn_count\<close> and the
  updated happiness and wealth, the row stays in the table, and the chosen text is not
  appended to \<open>player_history\<close>.
\<close>

theorem make_choice_not_atomic:
  assumes "\<not> blank choice_text"
    and "insert_fault ev = None"
    and "parse_stats_impact (int_max_str_digits ev) choice_text = Inr (dh, dw)"
    and "g' = g\<lparr>turn_count := turn_count g + 1,
                  happiness := max 0 (min 100 (happiness g + dh)),
                  wealth := max 0 (wealth g + dw)\<rparr>"
    and "consequence_chain ev (format_history g', choice_text, happiness g', wealth g') = Inl e"
  shows "\<exists>segment.
           get_story_segment ev (db @ [(choice_text, game_id g)]) g' reassess_situation = Inr segment
         \<and> make_choice ev (g, db) choice_text =
             (Inr (unclear_outcome_text, segment), (g', db @ [(choice_text, game_id g)]))
         \<and> player_history g' = player_history g"
  using make_choice_try_consequence_fails [OF assms, of db] assms(4)
  by (simp add: make_choice_def get_story_segment_returns)

theorem make_choice_not_atomic_witness:
  "make_choice env_consequence_down (new_game, []) ''x (+1,+1)'' =
     (Inr (unclear_outcome_text, ''STORY: s\<newline>CHOICES:\<newline>1. a\<newline>2. b\<newline>3. c''),
      (new_game\<lparr>turn_count := 1, happiness := 31, wealth := 100001\<rparr>,
       [(''x (+1,+1)'', ''a1'')]))
   \<and> player_history (new_game\<lparr>turn_count := 1, happiness := 31, wealth := 100001\<rparr>) = []"
proof -
  have p: "parse_stats_impact (int_max_str_digits env_consequence_down) ''x (+1,+1)'' = Inr (1, 1)"
    by (simp add: env_down_simps parse_example)
  have g: "new_game\<lparr>turn_count := 1, happiness := 31, wealth := 100001\<rparr> =
           new_game\<lparr>turn_count := turn_count new_game + 1,
                     happiness := max 0 (min 100 (happiness new_game + 1)),
                     wealth := max 0 (wealth new_game + 1)\<rparr>"
    by (simp add: new_game_def)
  have c: "consequence_chain env_consequence_down
             (format_history (new_game\<lparr>turn_count := 1, happiness := 31, wealth := 100001\<rparr>),
              ''x (+1,+1)'',
              happiness (new_game\<lparr>turn_count := 1, happiness := 31, wealth := 100001\<rparr>),
              wealth (new_game\<lparr>turn_count := 1, happiness := 31, wealth := 100001\<rparr>))
           = Inl GeneratorError"
    by (simp add: env_down_simps)
  show ?thesis
    using make_choice_not_atomic [OF example_not_blank env_down_simps(2) p g c, of "[]"]
    by (simp add: get_story_segment_def get_story_segment_try_def get_previous_choices_def
        env_down_simps new_game_def)
qed

section \<open>Blank choice texts\<close>

text \<open>
  C7, amended. For every empty or whitespace-only choice text the ValueError raised by
  the check is caught by the handler of \<open>make_choice\<close> itself: the caller receives the
  fallback consequence and the segment for the recovery situation as an ordinary pair,
  no error. Happiness, wealth, history, game id and the table are unchanged, and
  \<open>turn_count\<close> is one higher than before.
\<close>

theorem make_choice_blank:
  assumes "blank choice_text"
  shows "\<exists>segment.
           get_story_segment ev db (g\<lparr>turn_count := turn_count g + 1\<rparr>) reassess_situation
             = Inr segment
         \<and> make_choice ev (g, db) choice_text =
             (Inr (unclear_outcome_text, segment), (g\<lparr>turn_count := turn_count g + 1\<rparr>, db))"
  using make_choice_try_blank [OF assms, of ev g db]
  by (simp add: make_choice_def get_story_segment_returns)

theorem make_choice_blank_witness:
  "blank []
   \<and> make_choice env_up (new_game, []) [] =
     (Inr (unclear_outcome_text, ''STORY: s\<newline>CHOICES:\<newline>1. a\<newline>2. b\<newline>3. c''),
      (new_game\<lparr>turn_count := 1\<rparr>, []))"
proof -
  have b: "blank []" by (simp add: blank_def)
  show ?thesis
    using b make_choice_blank [OF b, of env_up "[]" new_game]
    by (simp add: get_story_segment_def get_story_segment_try_def get_previous_choices_def
        env_up_simps new_game_def)
qed

text \<open>
  C7 as stated fails: for the blank text of one space, in a new game, \<open>make_choice\<close>
  returns a pair and not an error, and \<open>turn_count\<close> goes from 0 to 1.
\<close>

theorem make_choice_blank_counterexample:
  "blank '' ''
   \<and> fst (make_choice env_up (new_game, []) '' '')
       = Inr (unclear_outcome_text, ''STORY: s\<newline>CHOICES:\<newline>1. a\<newline>2. b\<newline>3. c'')
   \<and> turn_count new_game = 0
   \<and> turn_count (fst (snd (make_choice env_up (new_game, []) '' ''))) = 1"
  by (simp add: blank_def isspace_def make_choice_def make_choice_try_def strip_def
      get_story_segment_def get_story_segment_try_def get_previous_choices_def env_up_simps
      new_game_def)

section \<open>make_choice absorbs every failure\<close>

lemma get_story_segment_chain_fails:
  assumes "get_previous_choices ev db g = Inr prev"
    and "story_chain ev (format_history g, sit, happiness g, wealth g, prev) = Inl e"
  shows "get_story_segment ev db g sit = Inr story_error_text"
  using assms by (simp add: get_story_segment_def get_story_segment_try_def)

lemma get_story_segment_chain_answers:
  assumes "get_previous_choices ev db g = Inr prev"
    and "story_chain ev (format_history g, sit, happiness g, wealth g, prev) = Inr r"
  shows "get_story_segment ev db g sit = Inr r"
  using assms by (simp add: get_story_segment_def get_story_segment_try_def)

lemma get_story_segment_select_fails:
  assumes "get_previous_choices ev db g = Inl e"
  shows "get_story_segment ev db g sit = Inr story_error_text"
  using assms by (simp add: get_story_segment_def get_story_segment_try_def)

lemma make_choice_handler:
  assumes "make_choice_try ev (g, db) c = (Inl e, st')"
  shows "\<exists>segment.
           get_story_segment ev (snd st') (fst st') reassess_situation = Inr segment
         \<and> make_choice ev (g, db) c = (Inr (unclear_outcome_text, segment), st')"
  using assms by (simp add: make_choice_def get_story_segment_returns)

lemma make_choice_consequence_succeeds:
  assumes nb: "\<not> blank c"
    and ins: "insert_fault ev = None"
    and p: "parse_stats_impact (int_max_str_digits ev) c = Inr (dh, dw)"
    and g2: "g2 = g\<lparr>turn_count := turn_count g + 1,
                     happiness := max 0 (min 100 (happiness g + dh)),
                     wealth := max 0 (wealth g + dw)\<rparr>"
    and cc: "consequence_chain ev (format_history g2, c, happiness g2, wealth g2) = Inr consequence"
  shows "\<exists>segment.
           get_story_segment ev (db @ [(c, game_id g)])
             (g2\<lparr>player_history := player_history g2 @ [c]\<rparr>) consequence = Inr segment
         \<and> make_choice ev (g, db) c =
             (Inr (consequence, segment),
              (g2\<lparr>player_history := player_history g2 @ [c]\<rparr>, db @ [(c, game_id g)]))"
proof -
  have u: "update_stats (int_max_str_digits ev) (g\<lparr>turn_count := turn_count g + 1\<rparr>) c
             = (Inr (dh, dw), g2)"
    by (simp add: update_stats_def p g2)
  from nb have b: "\<not> (c = [] \<or> length (strip c) = 0)"
    by (simp add: blank_iff)
  have "make_choice_try ev (g, db) c =
          (case get_story_segment ev (db @ [(c, game_id g)])
                  (g2\<lparr>player_history := player_history g2 @ [c]\<rparr>) consequence of
             Inl e \<Rightarrow> (Inl e, (g2\<lparr>player_history := player_history g2 @ [c]\<rparr>, db @ [(c, game_id g)]))
           | Inr segment \<Rightarrow>
               (Inr (consequence, segment),
                (g2\<lparr>player_history := player_history g2 @ [c]\<rparr>, db @ [(c, game_id g)])))"
    using b cc
    by (simp add: make_choice_try_def store_choice_def ins u Let_def split: sum.splits)
  then show ?thesis
    by (simp add: make_choice_def get_story_segment_returns)
qed

text \<open>
  C8, amended. \<open>make_choice\<close> never raises: for every input it returns a pair
  (consequence, segment). When the body of its \<open>try\<close> raises, as it does when the call
  of the consequence chain raises, the consequence is the generic fallback text and the
  segment is what \<open>get_story_segment\<close> returns for the generic recovery situation, in the
  state the body left. When the call of the consequence chain answers (for a text that is
  not blank, after a successful write), the answer is returned unchanged as the
  consequence, with the segment that \<open>get_story_segment\<close> returns for it.
  \<open>get_story_segment\<close> absorbs its own failures: when its call of the story chain raises,
  or the read of the previous choices does, the segment is the fixed text
  \<open>Error generating story segment.\<close>; otherwise it is the chain's answer unchanged.
\<close>

theorem make_choice_absorbs_failures:
  "(\<exists>consequence segment. fst (make_choice ev (g, db) c) = Inr (consequence, segment))
   \<and> (\<forall>e st'. make_choice_try ev (g, db) c = (Inl e, st') \<longrightarrow>
        (\<exists>segment.
           get_story_segment ev (snd st') (fst st') reassess_situation = Inr segment
         \<and> make_choice ev (g, db) c = (Inr (unclear_outcome_text, segment), st')))
   \<and> (\<forall>dh dw g2 e.
        \<not> blank c \<and> insert_fault ev = None
        \<and> parse_stats_impact (int_max_str_digits ev) c = Inr (dh, dw)
        \<and> g2 = g\<lparr>turn_count := turn_count g + 1,
                   happiness := max 0 (min 100 (happiness g + dh)),
                   wealth := max 0 (wealth g + dw)\<rparr>
        \<and> consequence_chain ev (format_history g2, c, happiness g2, wealth g2) = Inl e
        \<longrightarrow> make_choice_try ev (g, db) c = (Inl e, (g2, db @ [(c, game_id g)])))
   \<and> (\<forall>dh dw g2 consequence.
        \<not> blank c \<and> insert_fault ev = None
        \<and> parse_stats_impact (int_max_str_digits ev) c = Inr (dh, dw)
        \<and> g2 = g\<lparr>turn_count := turn_count g + 1,
                   happiness := max 0 (min 100 (happiness g + dh)),
                   wealth := max 0 (wealth g + dw)\<rparr>
        \<and> consequence_chain ev (format_history g2, c, happiness g2, wealth g2) = Inr consequence
        \<longrightarrow> (\<exists>segment.
               get_story_segment ev (db @ [(c, game_id g)])
                 (g2\<lparr>player_history := player_history g2 @ [c]\<rparr>) consequence = Inr segment
             \<and> make_choice ev (g, db) c =
                 (Inr (consequence, segment),
                  (g2\<lparr>player_history := player_history g2 @ [c]\<rparr>, db @ [(c, game_id g)]))))
   \<and> (\<forall>db' g' situation previous e.
        get_previous_choices ev db' g' = Inr previous
        \<and> story_chain ev (format_history g', situation, happiness g', wealth g', previous) = Inl e
        \<longrightarrow> get_story_segment ev db' g' situation = Inr story_error_text)
   \<and> (\<forall>db' g' situation e.
        get_previous_choices ev db' g' = Inl e
        \<longrightarrow> get_story_segment ev db' g' situation = Inr story_error_text)
   \<and> (\<forall>db' g' situation previous response.
        get_previous_choices ev db' g' = Inr previous
        \<and> story_chain ev (format_history g', situation, happiness g', wealth g', previous)
            = Inr response
        \<longrightarrow> get_story_segment ev db' g' situation = Inr response)"
proof -
  have A: "\<exists>consequence segment. fst (make_choice ev (g, db) c) = Inr (consequence, segment)"
  proof -
    obtain r st' where t: "make_choice_try ev (g, db) c = (r, st')"
      by (metis surj_pair)
    show ?thesis
    proof (cases r)
      case (Inl e)
      then show ?thesis
        using make_choice_handler [of ev g db c e st'] t by auto
    next
      case (Inr p)
      then show ?thesis
        using t by (cases p) (simp add: make_choice_def)
    qed
  qed
  show ?thesis
    using A make_choice_handler [of ev g db c]
      make_choice_try_consequence_fails [of c ev _ _ _ g _ db]
      make_choice_consequence_succeeds [of c ev _ _ _ g _ db]
      get_story_segment_chain_fails [of ev] get_story_segment_select_fails [of ev]
      get_story_segment_chain_answers [of ev]
    by (intro conjI allI impI; (elim conjE)?) blast+
qed

theorem make_choice_absorbs_failures_witness:
  "\<not> blank ''x (+1,+1)'' \<and> insert_fault env_consequence_down = None
   \<and> consequence_chain env_consequence_down
        (''No previous choices.'', ''x (+1,+1)'', 31, 100001) = Inl GeneratorError
   \<and> make_choice env_consequence_down (new_game, []) ''x (+1,+1)''
       = (Inr (unclear_outcome_text, ''STORY: s\<newline>CHOICES:\<newline>1. a\<newline>2. b\<newline>3. c''),
          (new_game\<lparr>turn_count := 1, happiness := 31, wealth := 100001\<rparr>,
           [(''x (+1,+1)'', ''a1'')]))"
proof -
  let ?g2 = "new_game\<lparr>turn_count := 1, happiness := 31, wealth := 100001\<rparr>"
  note T = make_choice_absorbs_failures [of env_consequence_down new_game "[]" "''x (+1,+1)''"]
  have p: "parse_stats_impact (int_max_str_digits env_consequence_down) ''x (+1,+1)'' = Inr (1, 1)"
    by (simp add: env_down_simps parse_example)
  have g: "?g2 = new_game\<lparr>turn_count := turn_count new_game + 1,
                     happiness := max 0 (min 100 (happiness new_game + 1)),
                     wealth := max 0 (wealth new_game + 1)\<rparr>"
    by (simp add: new_game_def)
  have c: "consequence_chain env_consequence_down
             (format_history ?g2, ''x (+1,+1)'', happiness ?g2, wealth ?g2) = Inl GeneratorError"
    by (simp add: env_down_simps)
  have i: "insert_fault env_consequence_down = None"
    by (simp add: env_down_simps)
  have t: "make_choice_try env_consequence_down (new_game, []) ''x (+1,+1)''
             = (Inl GeneratorError, (?g2, [] @ [(''x (+1,+1)'', game_id new_game)]))"
    by (rule T [THEN conjunct2, THEN conjunct2, THEN conjunct1, rule_format, of 1 1])
      (intro conjI example_not_blank i p g c)
  have "\<exists>segment.
          get_story_segment env_consequence_down
            (snd (?g2, [] @ [(''x (+1,+1)'', game_id new_game)]))
            (fst (?g2, [] @ [(''x (+1,+1)'', game_id new_game)])) reassess_situation = Inr segment
        \<and> make_choice env_consequence_down (new_game, []) ''x (+1,+1)''
            = (Inr (unclear_outcome_text, segment), (?g2, [] @ [(''x (+1,+1)'', game_id new_game)]))"
    by (rule T [THEN conjunct2, THEN conjunct1, rule_format, OF t])
  then have m: "make_choice env_consequence_down (new_game, []) ''x (+1,+1)''
       = (Inr (unclear_outcome_text, ''STORY: s\<newline>CHOICES:\<newline>1. a\<newline>2. b\<newline>3. c''),
          (?g2, [(''x (+1,+1)'', ''a1'')]))"
    by (auto simp: env_consequence_down_segment new_game_def)
  show ?thesis
    using m example_not_blank by (simp add: env_down_simps)
qed

text \<open>
  C8 as stated fails when only the call for the next segment fails: the consequence
  returned is the generated one and not the fallback text, no recovery situation is used,
  and the segment returned is the fixed error text, which \<open>game_action\<close> cannot read (it
  has no STORY: marker), so no choice can be made from it.
\<close>

theorem make_choice_absorbs_failures_counterexample:
  "story_chain env_story_down
       (''x (+1,+1)'', ''done'', 31, 100001, [''x (+1,+1)'']) = Inl GeneratorError
   \<and> fst (make_choice env_story_down (new_game, []) ''x (+1,+1)'')
       = Inr (''done'', story_error_text)
   \<and> ''done'' \<noteq> unclear_outcome_text
   \<and> parse_segment story_error_text = Inl IndexError"
  by (simp add: make_choice_def make_choice_try_def store_choice_def update_stats_def
      parse_example Let_def strip_def isspace_def
      get_story_segment_def get_story_segment_try_def get_previous_choices_def env_down_simps
      new_game_def parse_segment_def segment_story_def getitem_def)

section \<open>Facts about splitting and about integer literals\<close>

lemma py_split_not_Nil: "py_split sep s \<noteq> []"
  by (induction sep s rule: py_split.induct) (auto split: list.splits)

lemma py_split_absent: "\<not> str_contains sep s \<Longrightarrow> py_split sep s = [s]"
  by (induction sep s rule: py_split.induct) auto

lemma str_contains_append: "str_contains (a @ b) s \<Longrightarrow> str_contains a s"
  by (induction s) (auto dest: append_prefixD)

lemma str_contains_char: "str_contains [c] s \<longleftrightarrow> c \<in> set s"
  by (induction s) auto

lemma py_split_char:
  "py_split [c] s =
     takeWhile (\<lambda>x. x \<noteq> c) s #
       (case dropWhile (\<lambda>x. x \<noteq> c) s of [] \<Rightarrow> [] | x # rest \<Rightarrow> py_split [c] rest)"
proof (induction s)
  case Nil
  show ?case by simp
next
  case (Cons x xs)
  show ?case
  proof (cases "x = c")
    case True
    then show ?thesis by simp
  next
    case False
    have "py_split [c] (x # xs) =
            (case py_split [c] xs of [] \<Rightarrow> [[x]] | p # ps \<Rightarrow> (x # p) # ps)"
      using False by simp
    also have "\<dots> = (x # takeWhile (\<lambda>x. x \<noteq> c) xs) #
        (case dropWhile (\<lambda>x. x \<noteq> c) xs of [] \<Rightarrow> [] | x # rest \<Rightarrow> py_split [c] rest)"
      by (subst Cons.IH) simp
    finally show ?thesis using False by simp
  qed
qed

lemma ascii_digit_iff: "ascii_digit c \<longleftrightarrow> decimal_value c \<noteq> None"
  by (cases c) (auto simp: ascii_digit_def decimal_value_def Let_def)

lemma decimal_value_ascii_digit:
  "ascii_digit c \<Longrightarrow> decimal_value c = Some (of_char c - 48)"
  by (auto simp: ascii_digit_iff decimal_value_def Let_def split: if_splits)

lemma parse_digits_positional:
  "list_all ascii_digit ds \<Longrightarrow>
     parse_digits acc ds = Some (acc * 10 ^ length ds + positional_value ds)"
  by (induction ds arbitrary: acc) (auto simp: decimal_value_ascii_digit algebra_simps)

lemma parse_digits_not_digits:
  "\<not> list_all ascii_digit ds \<Longrightarrow> parse_digits acc ds = None"
  by (induction ds arbitrary: acc) (auto simp: ascii_digit_iff split: option.splits)

lemma py_int_minus:
  "py_int lim (CHR ''-'' # cs) =
     (if unsigned_literal lim cs then Inr (- int (positional_value cs)) else Inl ValueError)"
proof (cases "list_all ascii_digit cs")
  case True
  then show ?thesis
    by (auto simp: py_int_def unsigned_literal_def parse_digits_positional)
next
  case False
  then show ?thesis
    by (auto simp: py_int_def unsigned_literal_def parse_digits_not_digits)
qed

lemma py_int_plus:
  "py_int lim (CHR ''+'' # cs) =
     (if unsigned_literal lim cs then Inr (int (positional_value cs)) else Inl ValueError)"
proof (cases "list_all ascii_digit cs")
  case True
  then show ?thesis
    by (auto simp: py_int_def unsigned_literal_def parse_digits_positional)
next
  case False
  then show ?thesis
    by (auto simp: py_int_def unsigned_literal_def parse_digits_not_digits)
qed

lemma py_int_unsigned:
  assumes "c \<noteq> CHR ''-''" and "c \<noteq> CHR ''+''"
  shows "py_int lim (c # cs) =
     (if unsigned_literal lim (c # cs) then Inr (int (positional_value (c # cs)))
      else Inl ValueError)"
proof (cases "list_all ascii_digit (c # cs)")
  case True
  have "parse_digits 0 (c # cs) = Some (positional_value (c # cs))"
    using parse_digits_positional [OF True, of 0] by simp
  then show ?thesis
    using assms True
    by (auto simp: py_int_def unsigned_literal_def
        simp del: parse_digits.simps positional_value.simps)
next
  case False
  have "parse_digits 0 (c # cs) = None"
    using parse_digits_not_digits [OF False] by simp
  then show ?thesis
    using assms False
    by (auto simp: py_int_def unsigned_literal_def
        simp del: parse_digits.simps positional_value.simps)
qed

lemma py_int_signed_literal:
  "py_int lim s = (case signed_literal lim s of None \<Rightarrow> Inl ValueError | Some v \<Rightarrow> Inr v)"
proof (cases s)
  case Nil
  then show ?thesis by (simp add: py_int_def)
next
  case (Cons c cs)
  consider "c = CHR ''-''" | "c = CHR ''+''" | "c \<noteq> CHR ''-''" "c \<noteq> CHR ''+''" by blast
  then show ?thesis
  proof cases
    case 1
    then show ?thesis by (simp add: Cons py_int_minus)
  next
    case 2
    then show ?thesis by (simp add: Cons py_int_plus)
  next
    case 3
    then show ?thesis by (simp add: Cons py_int_unsigned del: positional_value.simps)
  qed
qed

lemma extract_number_signed_literal:
  "extract_number lim t =
     (case signed_literal lim (keep_digits_signs t) of None \<Rightarrow> Inl ValueError | Some v \<Rightarrow> Inr v)"
  by (simp add: extract_number_def py_int_signed_literal)

section \<open>What parse_stats_impact extracts\<close>

lemma second_piece:
  assumes "c \<in> set s"
  shows "getitem (py_split [c] s) 1 =
           Inr (takeWhile (\<lambda>x. x \<noteq> c) (drop 1 (dropWhile (\<lambda>x. x \<noteq> c) s)))"
proof -
  obtain x rest where d: "dropWhile (\<lambda>x. x \<noteq> c) s = x # rest"
    using assms by (cases "dropWhile (\<lambda>x. x \<noteq> c) s") auto
  have "py_split [c] s = takeWhile (\<lambda>x. x \<noteq> c) s # py_split [c] rest"
    by (subst py_split_char) (simp add: d)
  moreover obtain ps where "py_split [c] rest = takeWhile (\<lambda>x. x \<noteq> c) rest # ps"
    using py_split_char [of c rest] by blast
  ultimately show ?thesis
    by (simp add: getitem_def d)
qed

lemma first_piece: "getitem (py_split [c] s) 0 = Inr (takeWhile (\<lambda>x. x \<noteq> c) s)"
  by (subst py_split_char) (simp add: getitem_def)

lemma parse_stats_impact_try_extracted:
  assumes "CHR ''('' \<in> set choice" and "CHR '')'' \<in> set choice"
  shows "parse_stats_impact_try lim choice =
     (let impacts = py_split '','' (extracted choice) in
      if length impacts < 2 then Inr (0, 0)
      else
        (case extract_number lim (impacts ! 0) of
           Inl e \<Rightarrow> Inl e
         | Inr happiness_impact \<Rightarrow>
        (case extract_number lim (impacts ! 1) of
           Inl e \<Rightarrow> Inl e
         | Inr wealth_impact \<Rightarrow> Inr (happiness_impact, wealth_impact))))"
  using assms
  by (simp add: parse_stats_impact_try_def str_contains_char
      second_piece [unfolded One_nat_def] first_piece takeWhile_takeWhile extracted_def)

lemma parse_stats_impact_no_annotation:
  "CHR ''('' \<notin> set choice \<or> CHR '')'' \<notin> set choice \<Longrightarrow> parse_stats_impact lim choice = Inr (0, 0)"
  by (auto simp: parse_stats_impact_def parse_stats_impact_try_def str_contains_char)

lemma spec_delimited_extracted:
  assumes "spec_delimited choice = Some sub" and "CHR ''('' \<notin> set sub"
  shows "CHR ''('' \<in> set choice \<and> CHR '')'' \<in> set choice \<and> extracted choice = sub"
proof -
  obtain x rest where d: "dropWhile (\<lambda>c. c \<noteq> CHR ''('') choice = x # rest"
    using assms(1)
    by (cases "dropWhile (\<lambda>c. c \<noteq> CHR ''('') choice") (simp_all add: spec_delimited_def)
  have r: "CHR '')'' \<in> set rest" and sub: "sub = takeWhile (\<lambda>c. c \<noteq> CHR '')'') rest"
    using assms(1) by (simp_all add: spec_delimited_def d split: if_splits)
  have 1: "CHR ''('' \<in> set choice"
    using d dropWhile_eq_Nil_conv [of "\<lambda>c. c \<noteq> CHR ''(''" choice] by auto
  have 2: "CHR '')'' \<in> set choice"
    using r d set_dropWhileD [of "CHR '')''" "\<lambda>c. c \<noteq> CHR ''(''" choice] by simp
  have "takeWhile (\<lambda>c. c \<noteq> CHR ''('') sub = sub"
    using assms(2) by (auto simp: takeWhile_eq_all_conv)
  then have "takeWhile (\<lambda>c. c \<noteq> CHR '')'' \<and> c \<noteq> CHR ''('') rest = sub"
    by (simp add: sub takeWhile_takeWhile)
  then have "extracted choice = sub"
    by (simp add: extracted_def d conj_commute)
  with 1 2 show ?thesis by simp
qed

section \<open>Reading the impact annotation\<close>

text \<open>
  C3, amended. Take a choice text that has an opening parenthesis followed by a closing
  one, and let \<open>sub\<close> be the text between the first opening parenthesis and the first
  closing parenthesis after it. If no further opening parenthesis occurs in \<open>sub\<close>, if
  \<open>sub\<close> splits at its commas into at least two tokens, and if each of the first two
  tokens, reduced to its digit and sign characters, is a signed integer literal (within
  the digit limit of \<open>int\<close> where one is in force), then \<open>parse_stats_impact\<close> returns the
  value of the first token as the happiness delta and the value of the second as the
  wealth delta, in that order.
\<close>

theorem parse_stats_impact_annotated:
  assumes "spec_delimited choice = Some sub"
    and "CHR ''('' \<notin> set sub"
    and "py_split '','' sub = t1 # t2 # ts"
    and "signed_literal lim (keep_digits_signs t1) = Some h"
    and "signed_literal lim (keep_digits_signs t2) = Some w"
  shows "parse_stats_impact lim choice = Inr (h, w)"
proof -
  have e: "CHR ''('' \<in> set choice" "CHR '')'' \<in> set choice" "extracted choice = sub"
    using spec_delimited_extracted [OF assms(1,2)] by simp_all
  show ?thesis
    by (simp add: parse_stats_impact_def parse_stats_impact_try_extracted [OF e(1,2)] e(3)
        assms(3-5) extract_number_signed_literal)
qed

theorem parse_stats_impact_annotated_witness:
  "spec_delimited ''Dothraki (Happiness: +20, Wealth: -50000)'' = Some ''Happiness: +20, Wealth: -50000''
   \<and> parse_stats_impact 4300 ''Dothraki (Happiness: +20, Wealth: -50000)'' = Inr (20, -50000)"
proof -
  have 1: "spec_delimited ''Dothraki (Happiness: +20, Wealth: -50000)'' = Some ''Happiness: +20, Wealth: -50000''"
    by (simp add: spec_delimited_def)
  have 2: "CHR ''('' \<notin> set ''Happiness: +20, Wealth: -50000''"
    by simp
  have 3: "py_split '','' ''Happiness: +20, Wealth: -50000'' = [''Happiness: +20'', '' Wealth: -50000'']"
    by simp
  have 4: "signed_literal 4300 (keep_digits_signs ''Happiness: +20'') = Some 20"
    by (simp add: keep_digits_signs_def isdigit_def decimal_value_def unsigned_literal_def
        ascii_digit_def)
  have 5: "signed_literal 4300 (keep_digits_signs '' Wealth: -50000'') = Some (-50000)"
    by (simp add: keep_digits_signs_def isdigit_def decimal_value_def unsigned_literal_def
        ascii_digit_def)
  show ?thesis
    using 1 parse_stats_impact_annotated [OF 1 2 3 4 5] by simp
qed

text \<open>
  C3 as stated fails when a second opening parenthesis precedes the first closing one:
  \<open>split("(")[1]\<close> ends at that second parenthesis. In \<open>a (+5, (-100))\<close> the text between
  the first opening and the first closing parenthesis is \<open>+5, (-100\<close>, whose two tokens
  reduce to the literals +5 and -100, yet the result is (0, 0): the code's second token
  is a single space, which reduces to the empty text.
\<close>

theorem parse_stats_impact_annotated_counterexample:
  "spec_delimited ''a (+5, (-100))'' = Some ''+5, (-100''
   \<and> py_split '','' ''+5, (-100'' = [''+5'', '' (-100'']
   \<and> signed_literal 4300 (keep_digits_signs ''+5'') = Some 5
   \<and> signed_literal 4300 (keep_digits_signs '' (-100'') = Some (-100)
   \<and> parse_stats_impact 4300 ''a (+5, (-100))'' = Inr (0, 0)"
  by (simp add: spec_delimited_def keep_digits_signs_def isdigit_def decimal_value_def
      unsigned_literal_def ascii_digit_def parse_stats_impact_def parse_stats_impact_try_def
      getitem_def extract_number_def py_int_def)

section \<open>parse_stats_impact fails closed\<close>

lemma parse_stats_impact_few_tokens:
  assumes "length (py_split '','' (extracted choice)) < 2"
  shows "parse_stats_impact lim choice = Inr (0, 0)"
proof (cases "CHR ''('' \<in> set choice \<and> CHR '')'' \<in> set choice")
  case True
  then show ?thesis
    using assms by (simp add: parse_stats_impact_def parse_stats_impact_try_extracted)
next
  case False
  then show ?thesis
    using parse_stats_impact_no_annotation [of choice lim] by blast
qed

lemma parse_stats_impact_bad_literal:
  assumes "py_split '','' (extracted choice) = t1 # t2 # ts"
    and "signed_literal lim (keep_digits_signs t1) = None
         \<or> signed_literal lim (keep_digits_signs t2) = None"
  shows "parse_stats_impact lim choice = Inr (0, 0)"
proof (cases "CHR ''('' \<in> set choice \<and> CHR '')'' \<in> set choice")
  case True
  then show ?thesis
    using assms
    by (auto simp: parse_stats_impact_def parse_stats_impact_try_extracted
        extract_number_signed_literal split: option.splits)
next
  case False
  then show ?thesis
    using parse_stats_impact_no_annotation [of choice lim] by blast
qed

lemma py_split_char_short: "length (py_split [c] s) < 2 \<longleftrightarrow> c \<notin> set s"
proof (cases "dropWhile (\<lambda>x. x \<noteq> c) s")
  case Nil
  have "c \<notin> set s"
    using Nil dropWhile_eq_Nil_conv [of "\<lambda>x. x \<noteq> c" s] by auto
  then show ?thesis
    by (subst py_split_char) (simp add: Nil)
next
  case (Cons x rest)
  have "c \<in> set s"
    using Cons dropWhile_eq_Nil_conv [of "\<lambda>x. x \<noteq> c" s] by auto
  moreover have "py_split [c] rest \<noteq> []"
    by (rule py_split_not_Nil)
  ultimately show ?thesis
    by (subst py_split_char) (simp add: Cons)
qed

lemma spec_delimited_prefix:
  assumes "spec_delimited choice = Some sub"
  shows "CHR ''('' \<in> set choice \<and> CHR '')'' \<in> set choice
         \<and> extracted choice = takeWhile (\<lambda>c. c \<noteq> CHR ''('') sub"
proof -
  obtain x rest where d: "dropWhile (\<lambda>c. c \<noteq> CHR ''('') choice = x # rest"
    using assms
    by (cases "dropWhile (\<lambda>c. c \<noteq> CHR ''('') choice") (simp_all add: spec_delimited_def)
  have r: "CHR '')'' \<in> set rest" and sub: "sub = takeWhile (\<lambda>c. c \<noteq> CHR '')'') rest"
    using assms by (simp_all add: spec_delimited_def d split: if_splits)
  have 1: "CHR ''('' \<in> set choice"
    using d dropWhile_eq_Nil_conv [of "\<lambda>c. c \<noteq> CHR ''(''" choice] by auto
  have 2: "CHR '')'' \<in> set choice"
    using r d set_dropWhileD [of "CHR '')''" "\<lambda>c. c \<noteq> CHR ''(''" choice] by simp
  have "extracted choice = takeWhile (\<lambda>c. c \<noteq> CHR ''('') sub"
    by (simp add: extracted_def d sub takeWhile_takeWhile conj_commute)
  with 1 2 show ?thesis by simp
qed

lemma parse_stats_impact_few_spec_tokens:
  assumes "spec_delimited choice = Some sub" and "length (py_split '','' sub) < 2"
  shows "parse_stats_impact lim choice = Inr (0, 0)"
proof -
  have "CHR '','' \<notin> set sub"
    using assms(2) py_split_char_short [of "CHR '',''" sub] by simp
  then have "CHR '','' \<notin> set (extracted choice)"
    using spec_delimited_prefix [OF assms(1)] set_takeWhileD [of "CHR '',''" _ sub] by auto
  then have "length (py_split '','' (extracted choice)) < 2"
    using py_split_char_short [of "CHR '',''" "extracted choice"] by simp
  then show ?thesis
    by (rule parse_stats_impact_few_tokens)
qed

lemma parse_stats_impact_bad_spec_literal:
  assumes "spec_delimited choice = Some sub" and "CHR ''('' \<notin> set sub"
    and "py_split '','' sub = t1 # t2 # ts"
    and "signed_literal lim (keep_digits_signs t1) = None
         \<or> signed_literal lim (keep_digits_signs t2) = None"
  shows "parse_stats_impact lim choice = Inr (0, 0)"
proof -
  have "extracted choice = sub"
    using spec_delimited_extracted [OF assms(1,2)] by simp
  then show ?thesis
    using parse_stats_impact_bad_literal [of choice t1 t2 ts lim] assms(3,4) by simp
qed

text \<open>
  C4, amended. For every text \<open>parse_stats_impact\<close> returns a pair and raises nothing.
  The pair is the default (0, 0) when the text has no opening or no closing parenthesis;
  when the text between the first opening parenthesis and the first closing one after it
  splits at its commas into fewer than two tokens; and, provided no further opening
  parenthesis occurs in that text, when one of its first two tokens, reduced to its digit
  and sign characters, is not a signed integer literal (no digits, several signs, a sign
  after a digit, a digit \<open>int\<close> does not accept). In general the two conditions decide on
  the text the code extracts, which is what follows the first opening parenthesis up to
  the next parenthesis of either kind or the end: the pair is (0, 0) whenever that text
  has fewer than two tokens or one of its first two tokens does not reduce to a literal.
\<close>

theorem parse_stats_impact_fails_closed:
  "(\<exists>dh dw. parse_stats_impact lim choice = Inr (dh, dw))
   \<and> (CHR ''('' \<notin> set choice \<or> CHR '')'' \<notin> set choice
        \<longrightarrow> parse_stats_impact lim choice = Inr (0, 0))
   \<and> (\<forall>sub. spec_delimited choice = Some sub \<and> length (py_split '','' sub) < 2
        \<longrightarrow> parse_stats_impact lim choice = Inr (0, 0))
   \<and> (\<forall>sub t1 t2 ts.
         spec_delimited choice = Some sub \<and> CHR ''('' \<notin> set sub
         \<and> py_split '','' sub = t1 # t2 # ts
         \<and> (signed_literal lim (keep_digits_signs t1) = None
            \<or> signed_literal lim (keep_digits_signs t2) = None)
        \<longrightarrow> parse_stats_impact lim choice = Inr (0, 0))
   \<and> (length (py_split '','' (extracted choice)) < 2
        \<longrightarrow> parse_stats_impact lim choice = Inr (0, 0))
   \<and> (\<forall>t1 t2 ts.
         py_split '','' (extracted choice) = t1 # t2 # ts
         \<and> (signed_literal lim (keep_digits_signs t1) = None
            \<or> signed_literal lim (keep_digits_signs t2) = None)
        \<longrightarrow> parse_stats_impact lim choice = Inr (0, 0))"
  using parse_stats_impact_returns [of lim choice]
    parse_stats_impact_no_annotation [of choice lim]
    parse_stats_impact_few_spec_tokens [of choice _ lim]
    parse_stats_impact_bad_spec_literal [of choice _ _ _ _ lim]
    parse_stats_impact_few_tokens [of choice lim]
    parse_stats_impact_bad_literal [of choice _ _ _ lim]
  by blast

theorem parse_stats_impact_fails_closed_witness:
  "spec_delimited ''(+-1,2)'' = Some ''+-1,2''
   \<and> py_split '','' ''+-1,2'' = [''+-1'', ''2'']
   \<and> signed_literal 4300 (keep_digits_signs ''+-1'') = None
   \<and> parse_stats_impact 4300 ''(+-1,2)'' = Inr (0, 0)
   \<and> CHR ''('' \<notin> set ''no parentheses here''
   \<and> parse_stats_impact 4300 ''no parentheses here'' = Inr (0, 0)
   \<and> spec_delimited ''(Wealth: +40000)'' = Some ''Wealth: +40000''
   \<and> length (py_split '','' ''Wealth: +40000'') = 1
   \<and> parse_stats_impact 4300 ''(Wealth: +40000)'' = Inr (0, 0)"
proof -
  have d: "spec_delimited ''(+-1,2)'' = Some ''+-1,2''"
    by (simp add: spec_delimited_def)
  have q: "CHR ''('' \<notin> set ''+-1,2''"
    by simp
  have s: "py_split '','' ''+-1,2'' = [''+-1'', ''2'']"
    by simp
  have l: "signed_literal 4300 (keep_digits_signs ''+-1'') = None"
    by (simp add: keep_digits_signs_def isdigit_def decimal_value_def unsigned_literal_def
        ascii_digit_def)
  have n: "CHR ''('' \<notin> set ''no parentheses here''"
    by simp
  have e: "spec_delimited ''(Wealth: +40000)'' = Some ''Wealth: +40000''"
    by (simp add: spec_delimited_def)
  have o: "length (py_split '','' ''Wealth: +40000'') = 1"
    by simp
  have 1: "parse_stats_impact 4300 ''(+-1,2)'' = Inr (0, 0)"
    by (rule parse_stats_impact_fails_closed [of 4300 "''(+-1,2)''",
          THEN conjunct2, THEN conjunct2, THEN conjunct2, THEN conjunct1, rule_format,
          of "''+-1,2''" "''+-1''" "''2''" "[]"])
      (simp add: d q s l)
  have 2: "parse_stats_impact 4300 ''no parentheses here'' = Inr (0, 0)"
    by (rule parse_stats_impact_fails_closed [of 4300 "''no parentheses here''",
          THEN conjunct2, THEN conjunct1, rule_format])
      (simp add: n)
  have 3: "parse_stats_impact 4300 ''(Wealth: +40000)'' = Inr (0, 0)"
    by (rule parse_stats_impact_fails_closed [of 4300 "''(Wealth: +40000)''",
          THEN conjunct2, THEN conjunct2, THEN conjunct1, rule_format,
          of "''Wealth: +40000''"])
      (simp add: e o)
  from d s l n e o 1 2 3 show ?thesis by simp
qed

text \<open>
  C4 as stated fails when a second opening parenthesis precedes the first closing one.
  In \<open>a (+5, +3 (+))\<close> the text between the first opening and the first closing
  parenthesis is \<open>+5, +3 (+\<close>; its second token reduces to \<open>+3+\<close>, which is no literal, so
  the claim asks for (0, 0). The code reads the text up to the second opening
  parenthesis only, \<open>+5, +3 \<close>, and returns (5, 3).
\<close>

theorem parse_stats_impact_fails_closed_counterexample:
  "spec_delimited ''a (+5, +3 (+))'' = Some ''+5, +3 (+''
   \<and> py_split '','' ''+5, +3 (+'' = [''+5'', '' +3 (+'']
   \<and> keep_digits_signs '' +3 (+'' = ''+3+''
   \<and> signed_literal 4300 ''+3+'' = None
   \<and> parse_stats_impact 4300 ''a (+5, +3 (+))'' = Inr (5, 3)"
  by (simp add: spec_delimited_def keep_digits_signs_def isdigit_def decimal_value_def
      unsigned_literal_def ascii_digit_def parse_stats_impact_def parse_stats_impact_try_def
      getitem_def extract_number_def py_int_def)

section \<open>Segments without markers\<close>

lemma segment_story_absent:
  "\<not> str_contains ''STORY:'' raw \<Longrightarrow> segment_story raw = Inl IndexError"
  by (simp add: segment_story_def py_split_absent getitem_def)

lemma segment_story_error: "segment_story raw = Inl e \<Longrightarrow> e = IndexError"
  by (auto simp: segment_story_def getitem_def split: sum.splits if_splits)

lemma segment_choices_absent:
  assumes "\<not> str_contains ''CHOICES:'' raw"
  shows "segment_choices raw = Inl IndexError"
proof -
  have "\<not> str_contains (''CHOICES:'' @ ''\<newline>'') raw"
    using assms str_contains_append by blast
  then have "py_split ''CHOICES:\<newline>'' raw = [raw]"
    using py_split_absent [of "''CHOICES:\<newline>''" raw] by simp
  then show ?thesis
    by (simp add: segment_choices_def getitem_def)
qed

lemma segment_choices_error: "segment_choices raw = Inl e \<Longrightarrow> e = IndexError"
  by (auto simp: segment_choices_def getitem_def split: sum.splits if_splits)

lemma parse_segment_error: "parse_segment raw = Inl e \<Longrightarrow> e = IndexError"
  by (auto simp: parse_segment_def split: sum.splits
      dest: segment_story_error segment_choices_error)

lemma parse_segment_absent:
  assumes "\<not> str_contains ''STORY:'' raw \<or> \<not> str_contains ''CHOICES:'' raw"
  shows "parse_segment raw = Inl IndexError"
proof (cases "segment_story raw")
  case (Inl e)
  then show ?thesis
    using segment_story_error [OF Inl] by (simp add: parse_segment_def)
next
  case (Inr story)
  then have "str_contains ''STORY:'' raw"
    using segment_story_absent [of raw] by auto
  with assms have "\<not> str_contains ''CHOICES:'' raw" by blast
  then show ?thesis
    using Inr by (simp add: parse_segment_def segment_choices_absent)
qed

text \<open>
  C5, amended. For every segment text that lacks the marker \<open>STORY:\<close> or lacks the marker
  \<open>CHOICES:\<close>, reading the segment fails with Python's general IndexError, raised by the
  index into the pieces of the split, and returns no story and no choices, neither partial
  nor garbage. No fallback segment takes its place: the handler of \<open>game_action\<close> answers
  with an error response that carries the exception. IndexError is no error of missing
  markers in particular: it is the exception of every segment, whatever its text, that
  cannot be read.
\<close>

theorem parse_segment_markers_absent:
  "(\<not> str_contains ''STORY:'' raw \<or> \<not> str_contains ''CHOICES:'' raw
      \<longrightarrow> parse_segment raw = Inl IndexError
        \<and> segment_response raw = ServerError IndexError)
   \<and> (\<forall>e. segment_response raw = ServerError e \<longrightarrow> e = IndexError)"
proof -
  have "\<And>e. segment_response raw = ServerError e \<Longrightarrow> e = IndexError"
    using parse_segment_error [of raw]
    by (auto simp: segment_response_def split: sum.splits prod.splits)
  then show ?thesis
    using parse_segment_absent [of raw] by (auto simp: segment_response_def)
qed

theorem parse_segment_markers_absent_witness:
  "\<not> str_contains ''CHOICES:'' ''STORY: Foo.''
   \<and> parse_segment ''STORY: Foo.'' = Inl IndexError
   \<and> segment_response ''STORY: Foo.'' = ServerError IndexError
   \<and> segment_story ''STORY: Foo.'' = Inr ''Foo.''"
proof -
  have a: "\<not> str_contains ''CHOICES:'' ''STORY: Foo.''"
    by simp
  have b: "segment_story ''STORY: Foo.'' = Inr ''Foo.''"
    by (simp add: segment_story_def getitem_def strip_def isspace_def)
  show ?thesis
    using a b parse_segment_markers_absent [of "''STORY: Foo.''"] by blast
qed

text \<open>
  C5 as stated fails: for \<open>STORY: Foo.\<close>, which lacks \<open>CHOICES:\<close>, the answer is the
  error response with IndexError and not a segment put in its place; and that exception is
  no sign of a missing marker, since \<open>STORY: a CHOICES: b\<close>, which has both markers but
  no line break after the second, gets the same answer.
\<close>

theorem parse_segment_markers_absent_counterexample:
  "\<not> str_contains ''CHOICES:'' ''STORY: Foo.''
   \<and> segment_response ''STORY: Foo.'' = ServerError IndexError
   \<and> str_contains ''STORY:'' ''STORY: a CHOICES: b''
   \<and> str_contains ''CHOICES:'' ''STORY: a CHOICES: b''
   \<and> segment_response ''STORY: a CHOICES: b'' = ServerError IndexError"
  by (simp add: segment_response_def parse_segment_def segment_story_def segment_choices_def
      getitem_def strip_def isspace_def)

lemma parse_segment_example:
  "parse_segment ''STORY: Foo.\<newline>CHOICES:\<newline>1. A (+1,+2)\<newline>2. B (-1,+2)\<newline>3. C (+1,-2)''
     = Inr (''Foo.'', [''1. A (+1,+2)'', ''2. B (-1,+2)'', ''3. C (+1,-2)''])"
  by (simp add: parse_segment_def segment_story_def segment_choices_def getitem_def strip_def
      isspace_def)


end
